theory Spec2Isabelle
  imports Main "HOL-Library.Word"
begin

text \<open>
  The package \<open>loggerfx\<close>: the level vocabulary with its validator, and the factory \<open>New\<close>
  of the logger with a file sink and a console sink. The libraries the package calls (zap
  and zapcore, lumberjack, color, validator, and \<open>fmt\<close>, \<open>os\<close>, \<open>path\<close> of the standard
  library) appear with the behaviour the package relies on, each where it is first used.
\<close>

section \<open>Outcomes of a Go call\<close>

text \<open>
  A Go call either returns its results or panics. Functions of the package that return
  \<open>(value, error)\<close> are modelled with the pair itself: \<open>None\<close> stands for \<open>nil\<close>.
\<close>

datatype 'a outcome = Returns 'a | Panics string

definition nil_dereference :: string where
  "nil_dereference = ''invalid memory address or nil pointer dereference''"

section \<open>Errors\<close>

text \<open>
  \<open>ErrorString msg\<close> is an error that is only a message (\<open>errors.New\<close>, an errno);
  \<open>PathError op path err\<close> is the error of a failed file-system call (\<open>*fs.PathError\<close>);
  \<open>WrapError msg err\<close> is what \<open>fmt.Errorf\<close> builds for a format with one \<open>%w\<close> verb:
  the formatted message together with the wrapped error.
\<close>

datatype error = ErrorString string | PathError string string error | WrapError string error

fun Error :: "error \<Rightarrow> string" where
  "Error (ErrorString msg) = msg"
| "Error (PathError op path err) = op @ '' '' @ path @ '': '' @ Error err"
| "Error (WrapError msg err) = msg"

fun Unwrap :: "error \<Rightarrow> error option" where
  "Unwrap (ErrorString msg) = None"
| "Unwrap (PathError op path err) = Some err"
| "Unwrap (WrapError msg err) = Some err"

text \<open>\<open>fmt.Errorf(prefix + "%w", err)\<close>: the verb is replaced by \<open>err.Error()\<close>.\<close>

definition Errorf_w :: "string \<Rightarrow> error \<Rightarrow> error" where
  "Errorf_w prefix err = WrapError (prefix @ Error err) err"

section \<open>Levels of zapcore\<close>

text \<open>
  \<open>type Level int8\<close>, with the constants of the library: \<open>DebugLevel = -1\<close>, then
  \<open>InfoLevel\<close> (the zero value) up to \<open>FatalLevel = 5\<close>. Comparison of levels is the signed
  comparison of \<open>int8\<close>.
\<close>

type_synonym Level = "8 word"

definition zapcore_DebugLevel :: Level where "zapcore_DebugLevel = - 1"
definition zapcore_InfoLevel :: Level where "zapcore_InfoLevel = 0"
definition zapcore_WarnLevel :: Level where "zapcore_WarnLevel = 1"
definition zapcore_ErrorLevel :: Level where "zapcore_ErrorLevel = 2"
definition zapcore_DPanicLevel :: Level where "zapcore_DPanicLevel = 3"
definition zapcore_PanicLevel :: Level where "zapcore_PanicLevel = 4"
definition zapcore_FatalLevel :: Level where "zapcore_FatalLevel = 5"

text \<open>The verb \<open>%d\<close> of \<open>fmt\<close> on a signed integer.\<close>

fun digits :: "nat \<Rightarrow> string" where
  "digits n =
     (if n < 10 then [char_of (48 + n)] else digits (n div 10) @ [char_of (48 + n mod 10)])"

declare digits.simps [simp del]

definition fmt_d :: "int \<Rightarrow> string" where
  "fmt_d i = (if i < 0 then ''-'' @ digits (nat (- i)) else digits (nat i))"

text \<open>\<open>Level.String\<close> and \<open>Level.CapitalString\<close>: a switch over the seven constants.\<close>

definition Level_String :: "Level \<Rightarrow> string" where
  "Level_String l =
     (if l = zapcore_DebugLevel then ''debug''
      else if l = zapcore_InfoLevel then ''info''
      else if l = zapcore_WarnLevel then ''warn''
      else if l = zapcore_ErrorLevel then ''error''
      else if l = zapcore_DPanicLevel then ''dpanic''
      else if l = zapcore_PanicLevel then ''panic''
      else if l = zapcore_FatalLevel then ''fatal''
      else ''Level('' @ fmt_d (sint l) @ '')'')"

definition Level_CapitalString :: "Level \<Rightarrow> string" where
  "Level_CapitalString l =
     (if l = zapcore_DebugLevel then ''DEBUG''
      else if l = zapcore_InfoLevel then ''INFO''
      else if l = zapcore_WarnLevel then ''WARN''
      else if l = zapcore_ErrorLevel then ''ERROR''
      else if l = zapcore_DPanicLevel then ''DPANIC''
      else if l = zapcore_PanicLevel then ''PANIC''
      else if l = zapcore_FatalLevel then ''FATAL''
      else ''LEVEL('' @ fmt_d (sint l) @ '')'')"

text \<open>
  \<open>Level.Enabled\<close> of zapcore, which makes a level a \<open>LevelEnabler\<close>: the threshold \<open>l\<close>
  accepts an entry of level \<open>lvl\<close> iff \<open>lvl >= l\<close>. This is also the rule of the
  specification: an event is delivered to a sink iff its level is at least the threshold.
\<close>

definition Enabled :: "Level \<Rightarrow> Level \<Rightarrow> bool" where
  "Enabled l lvl = (l \<le>s lvl)"

section \<open>The level vocabulary of loggerfx\<close>

type_synonym LogLevel = string

definition DebugLevel :: LogLevel where "DebugLevel = Level_String zapcore_DebugLevel"
definition InfoLevel :: LogLevel where "InfoLevel = Level_String zapcore_InfoLevel"
definition WarnLevel :: LogLevel where "WarnLevel = Level_String zapcore_WarnLevel"
definition ErrorLevel :: LogLevel where "ErrorLevel = Level_String zapcore_ErrorLevel"
definition DPanicLevel :: LogLevel where "DPanicLevel = Level_String zapcore_DPanicLevel"
definition PanicLevel :: LogLevel where "PanicLevel = Level_String zapcore_PanicLevel"
definition FatalLevel :: LogLevel where "FatalLevel = Level_String zapcore_FatalLevel"

text \<open>The map literal \<open>logLevelMap\<close>: the entries are stored in the order written.\<close>

definition logLevelMap :: "LogLevel \<rightharpoonup> Level" where
  "logLevelMap =
     [DebugLevel \<mapsto> zapcore_DebugLevel,
      InfoLevel \<mapsto> zapcore_InfoLevel,
      WarnLevel \<mapsto> zapcore_WarnLevel,
      ErrorLevel \<mapsto> zapcore_ErrorLevel,
      DPanicLevel \<mapsto> zapcore_DPanicLevel,
      PanicLevel \<mapsto> zapcore_PanicLevel,
      FatalLevel \<mapsto> zapcore_FatalLevel]"

text \<open>
  \<open>validateLogLevel\<close>: the field's string is looked up with the two-value form
  \<open>_, ok := logLevelMap[...]\<close> and \<open>ok\<close> is returned.
\<close>

definition validateLogLevel :: "string \<Rightarrow> bool" where
  "validateLogLevel fieldLevel =
     (case logLevelMap fieldLevel of None \<Rightarrow> False | Some _ \<Rightarrow> True)"

text \<open>
  \<open>RegisterLogLevelValidation\<close>: the validator is its table of rules by tag. Registering
  under a non-empty tag with a non-nil function succeeds and stores the function.
\<close>

type_synonym Validate = "string \<rightharpoonup> (string \<Rightarrow> bool)"

definition RegisterValidation ::
  "Validate \<Rightarrow> string \<Rightarrow> (string \<Rightarrow> bool) \<Rightarrow> Validate \<times> error option" where
  "RegisterValidation validate tag fn =
     (if tag = [] then (validate, Some (ErrorString ''function Key cannot be empty''))
      else (validate(tag \<mapsto> fn), None))"

definition RegisterLogLevelValidation :: "Validate \<Rightarrow> Validate option \<times> error option" where
  "RegisterLogLevelValidation validate =
     (case RegisterValidation validate ''loglevel'' validateLogLevel of
        (validate', Some err) \<Rightarrow> (None, Some err)
      | (validate', None) \<Rightarrow> (Some validate', None))"

section \<open>The configuration\<close>

text \<open>
  \<open>LoggerConfig\<close>: the nested structs \<open>File\<close> and \<open>Console\<close>, one field of the record for
  each leaf (\<open>config.File.Level\<close> is \<open>File_Level config\<close>).
\<close>

record LoggerConfig =
  File_Level :: LogLevel
  File_Path :: string
  Console_Level :: LogLevel

text \<open>
  The index expression \<open>m[k]\<close> of a Go map in its one-value form: the zero value of the
  element type when the key is absent. The zero \<open>Level\<close> is \<open>0\<close>.
\<close>

definition index_Level :: "('k \<rightharpoonup> Level) \<Rightarrow> 'k \<Rightarrow> Level" where
  "index_Level m k = (case m k of None \<Rightarrow> 0 | Some v \<Rightarrow> v)"

section \<open>What the encoders append\<close>

text \<open>
  Modelled from the spec: the package \<open>logger\<close> (its variables \<open>DebugColor\<close>, \<open>InfoColor\<close>,
  \<open>WarnColor\<close>, \<open>ErrorColor\<close>, \<open>FatalColor\<close>) is not among the sources. Each variable is one
  colour class, a non-nil \<open>*color.Color\<close>; a pointer to a colour is \<open>Color option\<close>, with
  \<open>None\<close> for \<open>nil\<close>.
\<close>

datatype Color = DebugColor | InfoColor | WarnColor | ErrorColor | FatalColor

text \<open>
  A time is its number of nanoseconds since the epoch; of \<open>zapcore.EntryCaller\<close> the fields
  \<open>Defined\<close>, \<open>File\<close> and \<open>Line\<close> are kept.
\<close>

type_synonym Time = int

record EntryCaller =
  Caller_Defined :: bool
  Caller_File :: string
  Caller_Line :: int

text \<open>
  What is appended to the array encoder (a string, or a time as a number), kept as the call
  that produced it: \<open>Colored c s\<close> is what \<open>Sprintf\<close> of the colour \<open>c\<close> makes of the string \<open>s\<close>,
  \<open>TrimmedPath ec\<close> the result of \<open>ec.TrimmedPath()\<close>, \<open>RFC3339 t\<close> the time \<open>t\<close> in the layout
  \<open>time.RFC3339\<close>, \<open>EpochSeconds t\<close> the time as a floating-point number of seconds.
\<close>

datatype fragment =
    Plain string
  | Colored Color string
  | TrimmedPath EntryCaller
  | RFC3339 Time
  | EpochSeconds Time

type_synonym PrimitiveArrayEncoder = "fragment list"

definition AppendString :: "PrimitiveArrayEncoder \<Rightarrow> fragment \<Rightarrow> PrimitiveArrayEncoder" where
  "AppendString pae s = pae @ [s]"

text \<open>
  \<open>(*color.Color).Sprintf\<close> with the format \<open>"[%s]"\<close>: the method reads its receiver, so a
  nil receiver panics.
\<close>

definition Sprintf_brackets :: "Color option \<Rightarrow> string \<Rightarrow> fragment outcome" where
  "Sprintf_brackets c s =
     (case c of
        None \<Rightarrow> Panics nil_dereference
      | Some col \<Rightarrow> Returns (Colored col (''['' @ s @ '']'')))"

text \<open>The encoder functions of zapcore that the production configuration names.\<close>

definition LowercaseLevelEncoder ::
  "Level \<Rightarrow> PrimitiveArrayEncoder \<Rightarrow> PrimitiveArrayEncoder outcome" where
  "LowercaseLevelEncoder l pae = Returns (AppendString pae (Plain (Level_String l)))"

definition EpochTimeEncoder ::
  "Time \<Rightarrow> PrimitiveArrayEncoder \<Rightarrow> PrimitiveArrayEncoder outcome" where
  "EpochTimeEncoder t pae = Returns (AppendString pae (EpochSeconds t))"

definition RFC3339TimeEncoder ::
  "Time \<Rightarrow> PrimitiveArrayEncoder \<Rightarrow> PrimitiveArrayEncoder outcome" where
  "RFC3339TimeEncoder t pae = Returns (AppendString pae (RFC3339 t))"

definition ShortCallerEncoder ::
  "EntryCaller \<Rightarrow> PrimitiveArrayEncoder \<Rightarrow> PrimitiveArrayEncoder outcome" where
  "ShortCallerEncoder ec pae = Returns (AppendString pae (TrimmedPath ec))"

text \<open>
  \<open>zapcore.EncoderConfig\<close>: of its fields, the three encoder functions that \<open>New\<close> replaces
  in the console configuration.
\<close>

record EncoderConfig =
  EncodeLevel :: "Level \<Rightarrow> PrimitiveArrayEncoder \<Rightarrow> PrimitiveArrayEncoder outcome"
  EncodeTime :: "Time \<Rightarrow> PrimitiveArrayEncoder \<Rightarrow> PrimitiveArrayEncoder outcome"
  EncodeCaller :: "EntryCaller \<Rightarrow> PrimitiveArrayEncoder \<Rightarrow> PrimitiveArrayEncoder outcome"

definition NewProductionEncoderConfig :: EncoderConfig where
  "NewProductionEncoderConfig =
     \<lparr>EncodeLevel = LowercaseLevelEncoder,
      EncodeTime = EpochTimeEncoder,
      EncodeCaller = ShortCallerEncoder\<rparr>"

section \<open>Sinks, cores and the logger\<close>

text \<open>
  The value of \<open>path.Join(dir, name)\<close> is kept as the call. A write syncer is the rotating
  file writer of lumberjack with its \<open>Filename\<close>, the standard error stream, or one of
  zapcore's wrappers around a writer: \<open>AddSync\<close>, \<open>Lock\<close> (a mutex around every write).
\<close>

datatype path = Join string string

datatype WriteSyncer =
    lumberjack_Logger path
  | os_Stderr
  | AddSync WriteSyncer
  | Lock WriteSyncer

datatype Encoder = NewJSONEncoder EncoderConfig | NewConsoleEncoder EncoderConfig

text \<open>\<open>zapcore.NewCore(enc, ws, enab)\<close>: the core keeps the three.\<close>

record Core =
  enc :: Encoder
  out :: WriteSyncer
  enab :: Level

definition NewCore :: "Encoder \<Rightarrow> WriteSyncer \<Rightarrow> Level \<Rightarrow> Core" where
  "NewCore e ws l = \<lparr>enc = e, out = ws, enab = l\<rparr>"

text \<open>\<open>zapcore.NewTee\<close> of two cores: the cores, in the order given.\<close>

type_synonym Tee = "Core list"

definition NewTee :: "Core list \<Rightarrow> Tee" where
  "NewTee cores = cores"

datatype Option = AddCaller

record Logger =
  core :: Tee
  addCaller :: bool

definition zap_New :: "Tee \<Rightarrow> Option list \<Rightarrow> Logger" where
  "zap_New c opts = \<lparr>core = c, addCaller = (AddCaller \<in> set opts)\<rparr>"

datatype SugaredLogger = Sugar Logger

fun Desugar :: "SugaredLogger \<Rightarrow> Logger" where
  "Desugar (Sugar lg) = lg"

text \<open>
  The check of a log call at level \<open>lvl\<close>: zapcore's tee asks each of its cores in turn,
  and a core takes the entry iff its level enabler accepts the level. The result is the
  list of the cores the entry is then written to.
\<close>

definition Check :: "Logger \<Rightarrow> Level \<Rightarrow> Core list" where
  "Check lg lvl = filter (\<lambda>c. Enabled (enab c) lvl) (core lg)"

section \<open>The factory\<close>

text \<open>
  \<open>colorMap\<close> and the two closures that \<open>New\<close> stores in the console configuration. None of
  them reads the configuration, so they are constants here.
\<close>

definition colorMap :: "Level \<rightharpoonup> Color" where
  "colorMap =
     [zapcore_DebugLevel \<mapsto> DebugColor,
      zapcore_InfoLevel \<mapsto> InfoColor,
      zapcore_WarnLevel \<mapsto> WarnColor,
      zapcore_ErrorLevel \<mapsto> ErrorColor,
      zapcore_DPanicLevel \<mapsto> FatalColor,
      zapcore_FatalLevel \<mapsto> FatalColor,
      zapcore_PanicLevel \<mapsto> FatalColor]"

definition console_EncodeLevel ::
  "Level \<Rightarrow> PrimitiveArrayEncoder \<Rightarrow> PrimitiveArrayEncoder outcome" where
  "console_EncodeLevel l pae =
     (case Sprintf_brackets (colorMap l) (Level_CapitalString l) of
        Panics msg \<Rightarrow> Panics msg
      | Returns s \<Rightarrow> Returns (AppendString pae s))"

definition console_EncodeCaller ::
  "EntryCaller \<Rightarrow> PrimitiveArrayEncoder \<Rightarrow> PrimitiveArrayEncoder outcome" where
  "console_EncodeCaller ec pae = Returns (AppendString pae (TrimmedPath ec))"

definition consoleEncoderConfig :: EncoderConfig where
  "consoleEncoderConfig =
     NewProductionEncoderConfig
       \<lparr>EncodeLevel := console_EncodeLevel,
        EncodeTime := RFC3339TimeEncoder,
        EncodeCaller := console_EncodeCaller\<rparr>"

definition ModePerm :: nat where
  "ModePerm = 511"

text \<open>
  \<open>New\<close>. The file system is a state \<open>fs\<close> of any type; \<open>MkdirAll fs dir perm\<close> is what
  \<open>os.MkdirAll\<close> does in that state: the state it leaves and its error (\<open>None\<close> for \<open>nil\<close>).
  The configuration is a pointer: \<open>None\<close> is the nil pointer, whose field cannot be read.
  Nothing after \<open>MkdirAll\<close> touches the file system: the lumberjack writer opens its file at
  the first write, not when the struct is built.
\<close>

definition New ::
  "('fs \<Rightarrow> string \<Rightarrow> nat \<Rightarrow> 'fs \<times> error option) \<Rightarrow> 'fs \<Rightarrow> LoggerConfig option \<Rightarrow>
     ('fs \<times> SugaredLogger option \<times> error option) outcome" where
  "New MkdirAll fs config =
     (case config of
        None \<Rightarrow> Panics nil_dereference
      | Some config \<Rightarrow>
          (case MkdirAll fs (File_Path config) ModePerm of
             (fs', Some err) \<Rightarrow>
               Returns (fs', None,
                 Some (Errorf_w ''error in creating log file folder for writing: '' err))
           | (fs', None) \<Rightarrow>
               (let fileWriter = AddSync (lumberjack_Logger (Join (File_Path config) ''server.log''));
                    fileLogLevel = index_Level logLevelMap (File_Level config);
                    consoleLogLevel = index_Level logLevelMap (Console_Level config);
                    fileEncoderConfig = NewProductionEncoderConfig;
                    fileEncoder = NewJSONEncoder fileEncoderConfig;
                    consoleEncoder = NewConsoleEncoder consoleEncoderConfig;
                    core = NewTee
                      [NewCore fileEncoder fileWriter fileLogLevel,
                       NewCore consoleEncoder (Lock os_Stderr) consoleLogLevel]
                in Returns (fs', Some (Sugar (zap_New core [AddCaller])), None))))"

section \<open>Facts about the tables\<close>

lemmas zapcore_levels =
  zapcore_DebugLevel_def zapcore_InfoLevel_def zapcore_WarnLevel_def zapcore_ErrorLevel_def
  zapcore_DPanicLevel_def zapcore_PanicLevel_def zapcore_FatalLevel_def

lemmas loggerfx_levels =
  DebugLevel_def InfoLevel_def WarnLevel_def ErrorLevel_def
  DPanicLevel_def PanicLevel_def FatalLevel_def

lemma logLevelMap_names:
  "logLevelMap =
     [''debug'' \<mapsto> zapcore_DebugLevel, ''info'' \<mapsto> zapcore_InfoLevel,
      ''warn'' \<mapsto> zapcore_WarnLevel, ''error'' \<mapsto> zapcore_ErrorLevel,
      ''dpanic'' \<mapsto> zapcore_DPanicLevel, ''panic'' \<mapsto> zapcore_PanicLevel,
      ''fatal'' \<mapsto> zapcore_FatalLevel]"
  by (simp add: logLevelMap_def loggerfx_levels Level_String_def zapcore_levels)

lemma logLevelMap_apply:
  "logLevelMap s =
     (if s = ''fatal'' then Some zapcore_FatalLevel
      else if s = ''panic'' then Some zapcore_PanicLevel
      else if s = ''dpanic'' then Some zapcore_DPanicLevel
      else if s = ''error'' then Some zapcore_ErrorLevel
      else if s = ''warn'' then Some zapcore_WarnLevel
      else if s = ''info'' then Some zapcore_InfoLevel
      else if s = ''debug'' then Some zapcore_DebugLevel
      else None)"
  by (simp add: logLevelMap_names)

lemma index_Level_logLevelMap:
  "index_Level logLevelMap s =
     (if s = ''fatal'' then zapcore_FatalLevel
      else if s = ''panic'' then zapcore_PanicLevel
      else if s = ''dpanic'' then zapcore_DPanicLevel
      else if s = ''error'' then zapcore_ErrorLevel
      else if s = ''warn'' then zapcore_WarnLevel
      else if s = ''info'' then zapcore_InfoLevel
      else if s = ''debug'' then zapcore_DebugLevel
      else 0)"
  by (simp add: index_Level_def logLevelMap_apply)

lemma zapcore_levels_order:
  "zapcore_DebugLevel <s zapcore_InfoLevel \<and> zapcore_InfoLevel <s zapcore_WarnLevel \<and>
   zapcore_WarnLevel <s zapcore_ErrorLevel \<and> zapcore_ErrorLevel <s zapcore_DPanicLevel \<and>
   zapcore_DPanicLevel <s zapcore_PanicLevel \<and> zapcore_PanicLevel <s zapcore_FatalLevel"
  by (simp add: zapcore_levels word_sless_alt)

lemma colorMap_apply:
  "colorMap l =
     (if l = zapcore_PanicLevel then Some FatalColor
      else if l = zapcore_FatalLevel then Some FatalColor
      else if l = zapcore_DPanicLevel then Some FatalColor
      else if l = zapcore_ErrorLevel then Some ErrorColor
      else if l = zapcore_WarnLevel then Some WarnColor
      else if l = zapcore_InfoLevel then Some InfoColor
      else if l = zapcore_DebugLevel then Some DebugColor
      else None)"
  by (simp add: colorMap_def)

lemma Level_CapitalString_vocabulary:
  "Level_CapitalString zapcore_DebugLevel = ''DEBUG''"
  "Level_CapitalString zapcore_InfoLevel = ''INFO''"
  "Level_CapitalString zapcore_WarnLevel = ''WARN''"
  "Level_CapitalString zapcore_ErrorLevel = ''ERROR''"
  "Level_CapitalString zapcore_DPanicLevel = ''DPANIC''"
  "Level_CapitalString zapcore_PanicLevel = ''PANIC''"
  "Level_CapitalString zapcore_FatalLevel = ''FATAL''"
  by (simp_all add: Level_CapitalString_def zapcore_levels)

lemma colorMap_vocabulary:
  "colorMap zapcore_DebugLevel = Some DebugColor"
  "colorMap zapcore_InfoLevel = Some InfoColor"
  "colorMap zapcore_WarnLevel = Some WarnColor"
  "colorMap zapcore_ErrorLevel = Some ErrorColor"
  "colorMap zapcore_DPanicLevel = Some FatalColor"
  "colorMap zapcore_PanicLevel = Some FatalColor"
  "colorMap zapcore_FatalLevel = Some FatalColor"
  by (simp_all add: colorMap_def zapcore_levels)

lemma dom_colorMap:
  "dom colorMap =
     {zapcore_DebugLevel, zapcore_InfoLevel, zapcore_WarnLevel, zapcore_ErrorLevel,
      zapcore_DPanicLevel, zapcore_PanicLevel, zapcore_FatalLevel}"
  by (auto simp: colorMap_apply dom_def split: if_splits)

lemma console_EncodeLevel_apply:
  "EncodeLevel consoleEncoderConfig l pae =
     (case colorMap l of
        None \<Rightarrow> Panics nil_dereference
      | Some c \<Rightarrow> Returns (pae @ [Colored c (''['' @ Level_CapitalString l @ '']'')]))"
  by (simp add: consoleEncoderConfig_def console_EncodeLevel_def Sprintf_brackets_def
      AppendString_def split: option.splits)

text \<open>The rule \<open>loglevel\<close> of the validator is \<open>validateLogLevel\<close> after registration.\<close>

lemma RegisterLogLevelValidation_rule:
  "RegisterLogLevelValidation validate =
     (Some (validate(''loglevel'' \<mapsto> validateLogLevel)), None)"
  by (simp add: RegisterLogLevelValidation_def RegisterValidation_def)

text \<open>What \<open>New\<close> returns when the directory could be created.\<close>

lemma New_success:
  assumes "MkdirAll fs (File_Path config) ModePerm = (fs', None)"
  shows "New MkdirAll fs (Some config) =
     Returns (fs',
       Some (Sugar
         \<lparr>core =
            [\<lparr>enc = NewJSONEncoder NewProductionEncoderConfig,
              out = AddSync (lumberjack_Logger (Join (File_Path config) ''server.log'')),
              enab = index_Level logLevelMap (File_Level config)\<rparr>,
             \<lparr>enc = NewConsoleEncoder consoleEncoderConfig,
              out = Lock os_Stderr,
              enab = index_Level logLevelMap (Console_Level config)\<rparr>],
          addCaller = True\<rparr>),
       None)"
  using assms by (simp add: New_def NewCore_def NewTee_def zap_New_def)

section \<open>The level validator\<close>

text \<open>
  C2. \<open>validateLogLevel\<close>, the predicate registered as the rule \<open>loglevel\<close>, is true of a
  string exactly when the string is one of the seven names debug, info, warn, error, dpanic,
  panic, fatal, compared byte for byte: no case folding and no trimming. So it is false of
  the empty string, of \<open>Info\<close>, of \<open>trace\<close> and of a name with a space around it. The
  predicate is a total function of its argument alone: it cannot fail and changes nothing.
\<close>

theorem validateLogLevel_iff_canonical_name:
  "validateLogLevel s =
     (s \<in> {''debug'', ''info'', ''warn'', ''error'', ''dpanic'', ''panic'', ''fatal''}) \<and>
   \<not> validateLogLevel '''' \<and>
   \<not> validateLogLevel ''Info'' \<and>
   \<not> validateLogLevel ''trace'' \<and>
   \<not> validateLogLevel '' info'' \<and>
   \<not> validateLogLevel ''info ''"
  by (simp add: validateLogLevel_def logLevelMap_apply)

section \<open>Thresholds of the two sinks\<close>

text \<open>
  C1. When the directory can be created, \<open>New\<close> returns a logger whose check of an entry
  of any level \<open>lvl\<close> selects the file sink (the lumberjack writer) iff the threshold named
  by \<open>File.Level\<close> is at most \<open>lvl\<close>, and the console sink (the locked standard error stream)
  iff the threshold named by \<open>Console.Level\<close> is at most \<open>lvl\<close>: each sink is decided by its
  own threshold alone. The names stand for the zapcore levels of the same name, which are
  ordered debug < info < warn < error < dpanic < panic < fatal (a string that is none of
  the seven names stands for the zero level, see C9).
\<close>

theorem New_delivers_by_threshold:
  assumes "MkdirAll fs (File_Path config) ModePerm = (fs', None)"
  shows "(\<exists>lg. New MkdirAll fs (Some config) = Returns (fs', Some (Sugar lg), None) \<and>
      map out (Check lg lvl) =
        (if index_Level logLevelMap (File_Level config) \<le>s lvl
         then [AddSync (lumberjack_Logger (Join (File_Path config) ''server.log''))] else []) @
        (if index_Level logLevelMap (Console_Level config) \<le>s lvl
         then [Lock os_Stderr] else [])) \<and>
    logLevelMap =
      [''debug'' \<mapsto> zapcore_DebugLevel, ''info'' \<mapsto> zapcore_InfoLevel,
       ''warn'' \<mapsto> zapcore_WarnLevel, ''error'' \<mapsto> zapcore_ErrorLevel,
       ''dpanic'' \<mapsto> zapcore_DPanicLevel, ''panic'' \<mapsto> zapcore_PanicLevel,
       ''fatal'' \<mapsto> zapcore_FatalLevel] \<and>
    zapcore_DebugLevel <s zapcore_InfoLevel \<and> zapcore_InfoLevel <s zapcore_WarnLevel \<and>
    zapcore_WarnLevel <s zapcore_ErrorLevel \<and> zapcore_ErrorLevel <s zapcore_DPanicLevel \<and>
    zapcore_DPanicLevel <s zapcore_PanicLevel \<and> zapcore_PanicLevel <s zapcore_FatalLevel"
proof -
  have "\<exists>lg. New MkdirAll fs (Some config) = Returns (fs', Some (Sugar lg), None) \<and>
      map out (Check lg lvl) =
        (if index_Level logLevelMap (File_Level config) \<le>s lvl
         then [AddSync (lumberjack_Logger (Join (File_Path config) ''server.log''))] else []) @
        (if index_Level logLevelMap (Console_Level config) \<le>s lvl
         then [Lock os_Stderr] else [])"
    using New_success [of MkdirAll fs config fs'] assms
    by (simp add: Check_def Enabled_def)
  then show ?thesis
    using logLevelMap_names zapcore_levels_order by blast
qed

text \<open>
  The instance of the specification: with \<open>File.Level = "error"\<close> and
  \<open>Console.Level = "debug"\<close>, an info entry goes to the console sink and not to the file.
\<close>

theorem New_delivers_by_threshold_witness:
  "\<exists>lg. New (\<lambda>fs p m. (fs, None)) ()
        (Some \<lparr>File_Level = ''error'', File_Path = ''/var/log/app'', Console_Level = ''debug''\<rparr>)
        = Returns ((), Some (Sugar lg), None) \<and>
      map out (Check lg zapcore_InfoLevel) = [Lock os_Stderr]"
  using New_delivers_by_threshold [of "\<lambda>fs p m. (fs, None)" "()"
     "\<lparr>File_Level = ''error'', File_Path = ''/var/log/app'', Console_Level = ''debug''\<rparr>" "()"
     zapcore_InfoLevel]
  by (simp add: index_Level_logLevelMap zapcore_levels word_sle_eq)

section \<open>Construction errors\<close>

text \<open>
  C3. \<open>New\<close> calls \<open>MkdirAll\<close> on the configured directory before anything else. If that
  call fails with \<open>err\<close>, \<open>New\<close> returns (it does not panic) a nil logger together with an
  error that wraps \<open>err\<close> and whose message is the description
  \<open>error in creating log file folder for writing: \<close> followed by the message of \<open>err\<close>.
  No sink exists then: no logger is returned, and the file system is in the state in which
  \<open>MkdirAll\<close> left it.
\<close>

theorem New_MkdirAll_failure:
  assumes "MkdirAll fs (File_Path config) ModePerm = (fs', Some err)"
  shows "\<exists>e. New MkdirAll fs (Some config) = Returns (fs', None, Some e) \<and>
           Unwrap e = Some err \<and>
           Error e = ''error in creating log file folder for writing: '' @ Error err"
  using assms by (simp add: New_def Errorf_w_def)

theorem New_MkdirAll_failure_witness:
  "\<exists>e. New (\<lambda>fs p m. (fs, Some (PathError ''mkdir'' p (ErrorString ''permission denied''))))
          () (Some \<lparr>File_Level = ''info'', File_Path = ''/root/logs'', Console_Level = ''info''\<rparr>)
        = Returns ((), None, Some e) \<and>
       Unwrap e = Some (PathError ''mkdir'' ''/root/logs'' (ErrorString ''permission denied'')) \<and>
       Error e = ''error in creating log file folder for writing: mkdir /root/logs: permission denied''"
  using New_MkdirAll_failure [of
     "\<lambda>fs p m. (fs, Some (PathError ''mkdir'' p (ErrorString ''permission denied'')))" "()"
     "\<lparr>File_Level = ''info'', File_Path = ''/root/logs'', Console_Level = ''info''\<rparr>" "()"
     "PathError ''mkdir'' ''/root/logs'' (ErrorString ''permission denied'')"]
  by simp

text \<open>
  C9. \<open>New\<close> returns an error iff \<open>MkdirAll\<close> on \<open>config.File.Path\<close> does. The level strings
  are not validated: when the directory can be created, \<open>New\<close> returns a logger whatever
  the two strings are, and a string outside the seven names gives its sink the zero level,
  which is info; a string among the seven names gives the level of that name.
\<close>

theorem New_error_iff_MkdirAll_fails:
  "((\<exists>fs' lg e. New MkdirAll fs (Some config) = Returns (fs', lg, Some e)) \<longleftrightarrow>
      snd (MkdirAll fs (File_Path config) ModePerm) \<noteq> None) \<and>
   (snd (MkdirAll fs (File_Path config) ModePerm) = None \<longrightarrow>
      (\<exists>fs' file_core console_core.
         New MkdirAll fs (Some config) =
           Returns (fs', Some (Sugar \<lparr>core = [file_core, console_core], addCaller = True\<rparr>), None) \<and>
         enab file_core =
           (if validateLogLevel (File_Level config) then the (logLevelMap (File_Level config))
            else zapcore_InfoLevel) \<and>
         enab console_core =
           (if validateLogLevel (Console_Level config) then the (logLevelMap (Console_Level config))
            else zapcore_InfoLevel)))"
proof -
  obtain fs'' r where mk: "MkdirAll fs (File_Path config) ModePerm = (fs'', r)"
    by (cases "MkdirAll fs (File_Path config) ModePerm")
  have thr: "index_Level logLevelMap s =
      (if validateLogLevel s then the (logLevelMap s) else zapcore_InfoLevel)" for s
    by (simp add: index_Level_def validateLogLevel_def zapcore_InfoLevel_def split: option.splits)
  show ?thesis
  proof (cases r)
    case None
    with mk have ok: "MkdirAll fs (File_Path config) ModePerm = (fs'', None)"
      by simp
    show ?thesis
      using New_success [of MkdirAll fs config fs'', OF ok] ok
      by (simp add: thr)
  next
    case (Some err)
    with mk show ?thesis
      by (simp add: New_def)
  qed
qed

theorem New_error_iff_MkdirAll_fails_witness:
  "\<not> validateLogLevel ''verbose'' \<and> \<not> validateLogLevel ''INFO'' \<and>
   (\<exists>file_core console_core.
      New (\<lambda>fs p m. (fs, None)) ()
        (Some \<lparr>File_Level = ''verbose'', File_Path = ''/var/log/app'', Console_Level = ''INFO''\<rparr>)
        = Returns ((), Some (Sugar \<lparr>core = [file_core, console_core], addCaller = True\<rparr>), None) \<and>
      enab file_core = zapcore_InfoLevel \<and> enab console_core = zapcore_InfoLevel)"
  using New_error_iff_MkdirAll_fails [of "\<lambda>fs p m. (fs, None)" "()"
     "\<lparr>File_Level = ''verbose'', File_Path = ''/var/log/app'', Console_Level = ''INFO''\<rparr>"]
  by (simp add: validateLogLevel_def logLevelMap_apply)

section \<open>The console encoder\<close>

text \<open>
  C5. In the logger that \<open>New\<close> returns, the level encoder of the console sink appends,
  for each of the seven levels, the capital name of the level in brackets, in the colour
  that \<open>colorMap\<close> gives the level: the seven tags are different strings, fixed by the level
  alone. \<open>colorMap\<close> has seven entries, one for each level; dpanic, panic and fatal have the
  one colour \<open>FatalColor\<close>, and debug, info, warn and error have four more colours, each its
  own.
\<close>

theorem New_console_level_tags:
  assumes "MkdirAll fs (File_Path config) ModePerm = (fs', None)"
  shows "(\<exists>lg file_core cfg.
      New MkdirAll fs (Some config) = Returns (fs', Some (Sugar lg), None) \<and>
      core lg = [file_core,
                 \<lparr>enc = NewConsoleEncoder cfg, out = Lock os_Stderr,
                  enab = index_Level logLevelMap (Console_Level config)\<rparr>] \<and>
      EncodeLevel cfg zapcore_DebugLevel pae = Returns (pae @ [Colored DebugColor ''[DEBUG]'']) \<and>
      EncodeLevel cfg zapcore_InfoLevel pae = Returns (pae @ [Colored InfoColor ''[INFO]'']) \<and>
      EncodeLevel cfg zapcore_WarnLevel pae = Returns (pae @ [Colored WarnColor ''[WARN]'']) \<and>
      EncodeLevel cfg zapcore_ErrorLevel pae = Returns (pae @ [Colored ErrorColor ''[ERROR]'']) \<and>
      EncodeLevel cfg zapcore_DPanicLevel pae = Returns (pae @ [Colored FatalColor ''[DPANIC]'']) \<and>
      EncodeLevel cfg zapcore_PanicLevel pae = Returns (pae @ [Colored FatalColor ''[PANIC]'']) \<and>
      EncodeLevel cfg zapcore_FatalLevel pae = Returns (pae @ [Colored FatalColor ''[FATAL]''])) \<and>
      dom colorMap =
        {zapcore_DebugLevel, zapcore_InfoLevel, zapcore_WarnLevel, zapcore_ErrorLevel,
         zapcore_DPanicLevel, zapcore_PanicLevel, zapcore_FatalLevel} \<and>
      card (dom colorMap) = 7 \<and>
      distinct (map (\<lambda>l. ''['' @ Level_CapitalString l @ '']'')
        [zapcore_DebugLevel, zapcore_InfoLevel, zapcore_WarnLevel, zapcore_ErrorLevel,
         zapcore_DPanicLevel, zapcore_PanicLevel, zapcore_FatalLevel]) \<and>
      distinct (map colorMap
        [zapcore_DebugLevel, zapcore_InfoLevel, zapcore_WarnLevel, zapcore_ErrorLevel,
         zapcore_FatalLevel]) \<and>
      colorMap zapcore_DPanicLevel = colorMap zapcore_FatalLevel \<and>
      colorMap zapcore_PanicLevel = colorMap zapcore_FatalLevel"
proof -
  have tags:
    "EncodeLevel consoleEncoderConfig zapcore_DebugLevel pae = Returns (pae @ [Colored DebugColor ''[DEBUG]''])"
    "EncodeLevel consoleEncoderConfig zapcore_InfoLevel pae = Returns (pae @ [Colored InfoColor ''[INFO]''])"
    "EncodeLevel consoleEncoderConfig zapcore_WarnLevel pae = Returns (pae @ [Colored WarnColor ''[WARN]''])"
    "EncodeLevel consoleEncoderConfig zapcore_ErrorLevel pae = Returns (pae @ [Colored ErrorColor ''[ERROR]''])"
    "EncodeLevel consoleEncoderConfig zapcore_DPanicLevel pae = Returns (pae @ [Colored FatalColor ''[DPANIC]''])"
    "EncodeLevel consoleEncoderConfig zapcore_PanicLevel pae = Returns (pae @ [Colored FatalColor ''[PANIC]''])"
    "EncodeLevel consoleEncoderConfig zapcore_FatalLevel pae = Returns (pae @ [Colored FatalColor ''[FATAL]''])"
    by (simp_all add: console_EncodeLevel_apply colorMap_vocabulary Level_CapitalString_vocabulary)
  have seven: "card {zapcore_DebugLevel, zapcore_InfoLevel, zapcore_WarnLevel,
      zapcore_ErrorLevel, zapcore_DPanicLevel, zapcore_PanicLevel, zapcore_FatalLevel} = 7"
    by (simp add: zapcore_levels)
  have names: "distinct (map (\<lambda>l. ''['' @ Level_CapitalString l @ '']'')
        [zapcore_DebugLevel, zapcore_InfoLevel, zapcore_WarnLevel, zapcore_ErrorLevel,
         zapcore_DPanicLevel, zapcore_PanicLevel, zapcore_FatalLevel])"
    by (simp add: Level_CapitalString_vocabulary)
  have colours: "distinct (map colorMap
        [zapcore_DebugLevel, zapcore_InfoLevel, zapcore_WarnLevel, zapcore_ErrorLevel,
         zapcore_FatalLevel])"
    "colorMap zapcore_DPanicLevel = colorMap zapcore_FatalLevel"
    "colorMap zapcore_PanicLevel = colorMap zapcore_FatalLevel"
    by (simp_all add: colorMap_vocabulary)
  have seven': "card (dom colorMap) = 7"
    by (simp only: dom_colorMap seven)
  have built: "\<exists>lg file_core cfg.
      New MkdirAll fs (Some config) = Returns (fs', Some (Sugar lg), None) \<and>
      core lg = [file_core,
                 \<lparr>enc = NewConsoleEncoder cfg, out = Lock os_Stderr,
                  enab = index_Level logLevelMap (Console_Level config)\<rparr>] \<and>
      EncodeLevel cfg zapcore_DebugLevel pae = Returns (pae @ [Colored DebugColor ''[DEBUG]'']) \<and>
      EncodeLevel cfg zapcore_InfoLevel pae = Returns (pae @ [Colored InfoColor ''[INFO]'']) \<and>
      EncodeLevel cfg zapcore_WarnLevel pae = Returns (pae @ [Colored WarnColor ''[WARN]'']) \<and>
      EncodeLevel cfg zapcore_ErrorLevel pae = Returns (pae @ [Colored ErrorColor ''[ERROR]'']) \<and>
      EncodeLevel cfg zapcore_DPanicLevel pae = Returns (pae @ [Colored FatalColor ''[DPANIC]'']) \<and>
      EncodeLevel cfg zapcore_PanicLevel pae = Returns (pae @ [Colored FatalColor ''[PANIC]'']) \<and>
      EncodeLevel cfg zapcore_FatalLevel pae = Returns (pae @ [Colored FatalColor ''[FATAL]''])"
    using New_success [of MkdirAll fs config fs'] assms
    by (simp add: tags)
  show ?thesis
    by (intro conjI built dom_colorMap seven' names colours)
qed

theorem New_console_level_tags_witness:
  "\<exists>lg file_core cfg.
      New (\<lambda>fs p m. (fs, None)) ()
        (Some \<lparr>File_Level = ''info'', File_Path = ''/var/log/app'', Console_Level = ''warn''\<rparr>)
        = Returns ((), Some (Sugar lg), None) \<and>
      core lg = [file_core,
                 \<lparr>enc = NewConsoleEncoder cfg, out = Lock os_Stderr, enab = zapcore_WarnLevel\<rparr>] \<and>
      EncodeLevel cfg zapcore_ErrorLevel [RFC3339 0] =
        Returns [RFC3339 0, Colored ErrorColor ''[ERROR]''] \<and>
      EncodeLevel cfg zapcore_PanicLevel [RFC3339 0] =
        Returns [RFC3339 0, Colored FatalColor ''[PANIC]'']"
proof -
  have warn: "index_Level logLevelMap ''warn'' = zapcore_WarnLevel"
    by (simp add: index_Level_logLevelMap)
  from New_console_level_tags [of "\<lambda>fs p m. (fs, None)" "()"
     "\<lparr>File_Level = ''info'', File_Path = ''/var/log/app'', Console_Level = ''warn''\<rparr>" "()"
     "[RFC3339 0]"]
  obtain lg file_core cfg where
    "New (\<lambda>fs p m. (fs, None)) ()
        (Some \<lparr>File_Level = ''info'', File_Path = ''/var/log/app'', Console_Level = ''warn''\<rparr>)
        = Returns ((), Some (Sugar lg), None)"
    "core lg = [file_core,
                 \<lparr>enc = NewConsoleEncoder cfg, out = Lock os_Stderr, enab = zapcore_WarnLevel\<rparr>]"
    "EncodeLevel cfg zapcore_ErrorLevel [RFC3339 0] =
        Returns [RFC3339 0, Colored ErrorColor ''[ERROR]'']"
    "EncodeLevel cfg zapcore_PanicLevel [RFC3339 0] =
        Returns [RFC3339 0, Colored FatalColor ''[PANIC]'']"
    by (auto simp: warn)
  then show ?thesis by blast
qed

text \<open>
  C10. The level encoder of the console configuration on a level \<open>l\<close>: if \<open>l\<close> is one of
  the seven levels of the vocabulary, \<open>colorMap\<close> has a colour for it (the pointer is not
  nil) and the encoder returns with the bracketed capital name appended in that colour;
  for every other level the lookup gives nil and the call of \<open>Sprintf\<close> on it panics with
  a nil dereference. So the encoder panics exactly on the levels outside the vocabulary,
  and never when every entry carries a vocabulary level.
\<close>

theorem console_EncodeLevel_safe_iff_vocabulary:
  "(if l \<in> {zapcore_DebugLevel, zapcore_InfoLevel, zapcore_WarnLevel, zapcore_ErrorLevel,
             zapcore_DPanicLevel, zapcore_PanicLevel, zapcore_FatalLevel}
    then \<exists>c. colorMap l = Some c \<and>
           EncodeLevel consoleEncoderConfig l pae =
             Returns (pae @ [Colored c (''['' @ Level_CapitalString l @ '']'')])
    else colorMap l = None \<and>
         EncodeLevel consoleEncoderConfig l pae = Panics nil_dereference) \<and>
   (\<exists>msg. EncodeLevel consoleEncoderConfig l pae = Panics msg) =
     (l \<notin> {zapcore_DebugLevel, zapcore_InfoLevel, zapcore_WarnLevel, zapcore_ErrorLevel,
             zapcore_DPanicLevel, zapcore_PanicLevel, zapcore_FatalLevel})"
proof -
  have vocabulary:
    "(l \<in> {zapcore_DebugLevel, zapcore_InfoLevel, zapcore_WarnLevel, zapcore_ErrorLevel,
             zapcore_DPanicLevel, zapcore_PanicLevel, zapcore_FatalLevel}) =
     (colorMap l \<noteq> None)"
    by (simp only: dom_colorMap [symmetric] domIff)
  show ?thesis
    unfolding vocabulary
    by (cases "colorMap l") (simp_all add: console_EncodeLevel_apply)
qed

theorem console_EncodeLevel_safe_iff_vocabulary_witness:
  "EncodeLevel consoleEncoderConfig zapcore_WarnLevel [] = Returns [Colored WarnColor ''[WARN]''] \<and>
   colorMap 42 = None \<and>
   EncodeLevel consoleEncoderConfig 42 [] = Panics nil_dereference"
  using console_EncodeLevel_safe_iff_vocabulary [of zapcore_WarnLevel "[]"]
    console_EncodeLevel_safe_iff_vocabulary [of 42 "[]"]
  by (simp add: colorMap_apply Level_CapitalString_def zapcore_levels)

section \<open>Format and destination of the console sink\<close>

text \<open>
  C7. In the logger that \<open>New\<close> returns, the console sink writes to the standard error
  stream (behind zapcore's lock); its encoder is the console encoder, whose time encoder
  appends the entry's time in the RFC3339 layout and whose caller encoder appends the
  trimmed path of the call site. The logger is built with the option \<open>AddCaller\<close>, and the
  file sink and the console sink are the two cores of that one logger, so the call site is
  recorded for the entries of both.
\<close>

theorem New_console_sink_format:
  assumes "MkdirAll fs (File_Path config) ModePerm = (fs', None)"
  shows "\<exists>file_core console_core cfg.
      New MkdirAll fs (Some config) =
        Returns (fs', Some (Sugar \<lparr>core = [file_core, console_core], addCaller = True\<rparr>), None) \<and>
      out file_core = AddSync (lumberjack_Logger (Join (File_Path config) ''server.log'')) \<and>
      out console_core = Lock os_Stderr \<and>
      enc console_core = NewConsoleEncoder cfg \<and>
      (\<forall>t pae. EncodeTime cfg t pae = Returns (pae @ [RFC3339 t])) \<and>
      (\<forall>ec pae. EncodeCaller cfg ec pae = Returns (pae @ [TrimmedPath ec]))"
  using New_success [of MkdirAll fs config fs'] assms
  by (simp add: consoleEncoderConfig_def RFC3339TimeEncoder_def console_EncodeCaller_def
      AppendString_def)

theorem New_console_sink_format_witness:
  "\<exists>file_core console_core cfg.
      New (\<lambda>fs p m. (fs, None)) ()
        (Some \<lparr>File_Level = ''info'', File_Path = ''/var/log/app'', Console_Level = ''info''\<rparr>) =
        Returns ((), Some (Sugar \<lparr>core = [file_core, console_core], addCaller = True\<rparr>), None) \<and>
      out file_core = AddSync (lumberjack_Logger (Join ''/var/log/app'' ''server.log'')) \<and>
      out console_core = Lock os_Stderr \<and>
      enc console_core = NewConsoleEncoder cfg \<and>
      EncodeTime cfg 1700000000000000000 [] = Returns [RFC3339 1700000000000000000] \<and>
      EncodeCaller cfg \<lparr>Caller_Defined = True, Caller_File = ''/src/app/server/main.go'',
          Caller_Line = 42\<rparr> [] =
        Returns [TrimmedPath \<lparr>Caller_Defined = True, Caller_File = ''/src/app/server/main.go'',
          Caller_Line = 42\<rparr>]"
  using New_console_sink_format [of "\<lambda>fs p m. (fs, None)" "()"
     "\<lparr>File_Level = ''info'', File_Path = ''/var/log/app'', Console_Level = ''info''\<rparr>" "()"]
  by auto

end
